theory Spec2Isabelle
  imports Complex_Main "HOL-Library.Finite_Map"
begin

section \<open>Construction options of the DHT (dht\_options.go)\<close>

subsection \<open>Data\<close>

text \<open>
  Values of the collaborating packages are opaque here: a peer identity, a key book
  (the peerstore handle), a datastore, a filter function and a provider option are
  handles that the configuration code only stores and never inspects.
\<close>

type_synonym peer_ID = nat
type_synonym protocol_ID = string
type_synonym keybook = nat
type_synonym duration = int

text \<open>
  \<open>record.Validator\<close> is an interface; the code inspects the dynamic type of a
  validator with type assertions. The dynamic types it distinguishes are
  \<open>record.PublicKeyValidator\<close> (an empty struct), \<open>ipns.Validator\<close> (a struct
  holding a key book) and \<open>record.NamespacedValidator\<close> (a Go map from namespace
  to validator). A Go map value is either an allocated map or the nil map: both have
  the dynamic type \<open>record.NamespacedValidator\<close>, reading works on both, writing to
  the nil map panics. \<open>NilValidator\<close> is the nil interface value (the zero value of
  the field); every other validator is an \<open>OtherValidator\<close>. Go holds a map by
  reference: here the contents of the map are the value of the field that holds it, so
  a store into the map of the configuration is a change of its \<open>validator\<close> field.
\<close>

datatype validator =
    PublicKeyValidator
  | IpnsValidator keybook
  | NamespacedValidator "(string, validator) fmap"
  | NilNamespacedValidator
  | NilValidator
  | OtherValidator nat

datatype ModeOpt = ModeAuto | ModeClient | ModeServer | ModeAutoServer

datatype datastore = NoDatastore | MapDatastore | UserDatastore nat

datatype QueryFilterFunc = NoQueryFilter | emptyQueryFilter | UserQueryFilter nat

datatype RouteTableFilterFunc = NoRTFilter | emptyRTFilter | UserRTFilter nat

text \<open>
  An error value returned by \<open>fmt.Errorf\<close> carries its formatted message;
  \<open>OptionFailed i e\<close> is the message \<open>dht option i failed: e\<close> of \<open>apply\<close>.
  \<open>Panic\<close> is a run-time panic of the Go code (assignment to an entry of the nil map).
\<close>

datatype error =
    Errorf string
  | OptionFailed nat error
  | Panic string

text \<open>
  The anonymous struct \<open>config.routingTable\<close>. A \<open>float64\<close> coefficient is
  modelled by the real number it denotes; the code only stores these coefficients.
\<close>

record routingTable_config =
  refreshQueryTimeout :: duration
  refreshInterval :: duration
  autoRefresh :: bool
  latencyTolerance :: duration
  peerFilter :: RouteTableFilterFunc
  considerLatency :: bool
  avgBitsImprovedPerStep :: real
  avgRoundTripPerStep :: real

record config =
  datastore :: datastore
  validator :: validator
  validatorChanged :: bool
  mode :: ModeOpt
  protocolPrefix :: protocol_ID
  bucketSize :: int
  concurrency :: int
  resiliency :: int
  maxRecordAge :: duration
  enableProviders :: bool
  enableValues :: bool
  providersOptions :: "nat list"
  queryPeerFilter :: QueryFilterFunc
  protectAllBuckets :: bool
  protectedBuckets :: int
  routingTable :: routingTable_config
  v1CompatibleMode :: bool
  bootstrapPeers :: "peer_ID list"

type_synonym Option = "config \<Rightarrow> error + config"

definition DefaultPrefix :: protocol_ID where
  "DefaultPrefix = ''/ipfs''"

definition defaultBucketSize :: int where
  "defaultBucketSize = 20"

subsection \<open>Type assertions on validators\<close>

text \<open>
  \<open>nsval, ok := v.(record.NamespacedValidator)\<close>: \<open>ok\<close> holds for the allocated
  and for the nil map.
\<close>

fun isNSVal :: "validator \<Rightarrow> bool" where
  "isNSVal (NamespacedValidator m) = True"
| "isNSVal NilNamespacedValidator = True"
| "isNSVal _ = False"

text \<open>Reading a Go map: \<open>len(nsval)\<close> and \<open>v, found := nsval[ns]\<close>.\<close>

fun ns_len :: "validator \<Rightarrow> nat" where
  "ns_len (NamespacedValidator m) = fcard (fmdom m)"
| "ns_len _ = 0"

fun ns_lookup :: "validator \<Rightarrow> string \<Rightarrow> validator option" where
  "ns_lookup (NamespacedValidator m) ns = fmlookup m ns"
| "ns_lookup _ ns = None"

text \<open>Writing a Go map: \<open>nsval[ns] = v\<close> panics on the nil map.\<close>

fun ns_store :: "validator \<Rightarrow> string \<Rightarrow> validator \<Rightarrow> error + validator" where
  "ns_store (NamespacedValidator m) ns v = Inr (NamespacedValidator (fmupd ns v m))"
| "ns_store _ ns v = Inl (Panic ''assignment to entry in nil map'')"

fun isPublicKeyValidator :: "validator \<Rightarrow> bool" where
  "isPublicKeyValidator PublicKeyValidator = True"
| "isPublicKeyValidator _ = False"

fun isIpnsValidator :: "validator \<Rightarrow> bool" where
  "isIpnsValidator (IpnsValidator kb) = True"
| "isIpnsValidator _ = False"

subsection \<open>The zero configuration and the defaults\<close>

text \<open>The zero value of the struct, which the constructor starts from.\<close>

definition zero_config :: config where
  "zero_config = \<lparr>
     datastore = NoDatastore, validator = NilValidator, validatorChanged = False,
     mode = ModeAuto, protocolPrefix = [], bucketSize = 0, concurrency = 0,
     resiliency = 0, maxRecordAge = 0, enableProviders = False, enableValues = False,
     providersOptions = [], queryPeerFilter = NoQueryFilter,
     protectAllBuckets = False, protectedBuckets = 0,
     routingTable = \<lparr>
       refreshQueryTimeout = 0, refreshInterval = 0, autoRefresh = False,
       latencyTolerance = 0, peerFilter = NoRTFilter, considerLatency = False,
       avgBitsImprovedPerStep = 0, avgRoundTripPerStep = 0 \<rparr>,
     v1CompatibleMode = False, bootstrapPeers = [] \<rparr>"

text \<open>Durations are nanoseconds, as \<open>time.Duration\<close> counts them.\<close>

definition Minute :: duration where
  "Minute = 60 * 1000000000"

definition Hour :: duration where
  "Hour = 60 * Minute"

text \<open>
  Modelled from the spec: the constant \<open>defaultProtectedBuckets\<close> is declared outside
  the two source files; the protected bucket depth "defaults to 1".
\<close>

definition defaultProtectedBuckets :: int where
  "defaultProtectedBuckets = 1"

text \<open>
  \<open>math.Log2\<close> on the reals, as it computes on a positive argument (on zero and on
  negative numbers Go returns an infinity or a NaN, which the reals do not have).
\<close>

definition Log2 :: "real \<Rightarrow> real" where
  "Log2 x = log 2 x"

definition defaults :: Option where
  "defaults c =
     Inr (c\<lparr>
       validator := NamespacedValidator fmempty,
       datastore := MapDatastore,
       protocolPrefix := DefaultPrefix,
       enableProviders := True,
       enableValues := True,
       queryPeerFilter := emptyQueryFilter,
       routingTable := (routingTable c)\<lparr>
         latencyTolerance := Minute,
         refreshQueryTimeout := 1 * Minute,
         refreshInterval := 10 * Minute,
         autoRefresh := True,
         peerFilter := emptyRTFilter,
         considerLatency := False,
         avgBitsImprovedPerStep := 1.3327 + Log2 (real_of_int defaultBucketSize),
         avgRoundTripPerStep := 4 \<rparr>,
       maxRecordAge := Hour * 36,
       bucketSize := defaultBucketSize,
       concurrency := 10,
       resiliency := 3,
       protectAllBuckets := False,
       protectedBuckets := defaultProtectedBuckets,
       v1CompatibleMode := True \<rparr>)"

subsection \<open>apply and applyFallbacks\<close>

text \<open>
  \<open>apply\<close> runs the options in order on the configuration and stops at the first
  option that returns an error, which it wraps with the option's index. A panic of an
  option is not an error value: it unwinds through \<open>apply\<close> unchanged.
\<close>

fun apply_from :: "nat \<Rightarrow> Option list \<Rightarrow> config \<Rightarrow> error + config" where
  "apply_from i [] c = Inr c"
| "apply_from i (opt # opts) c =
     (case opt c of
        Inl (Panic s) \<Rightarrow> Inl (Panic s)
      | Inl err \<Rightarrow> Inl (OptionFailed i err)
      | Inr c' \<Rightarrow> apply_from (Suc i) opts c')"

definition config_apply :: "Option list \<Rightarrow> config \<Rightarrow> error + config" where
  "config_apply opts c = apply_from 0 opts c"

text \<open>The host gives the peerstore, which is the key book of the IPNS validator.\<close>

datatype host = Host (Peerstore: keybook)

text \<open>
  The two conditional stores of \<open>applyFallbacks\<close>:
  \<open>if _, found := nsval[ns]; !found { nsval[ns] = v }\<close>.
\<close>

definition store_if_absent :: "validator \<Rightarrow> string \<Rightarrow> validator \<Rightarrow> error + validator" where
  "store_if_absent nsval ns v =
     (case ns_lookup nsval ns of None \<Rightarrow> ns_store nsval ns v | Some old \<Rightarrow> Inr nsval)"

definition applyFallbacks :: "host \<Rightarrow> config \<Rightarrow> error + config" where
  "applyFallbacks h c =
     (if \<not> validatorChanged c then
        (if isNSVal (validator c) then
           (case store_if_absent (validator c) ''pk'' PublicKeyValidator of
              Inl e \<Rightarrow> Inl e
            | Inr nsval \<Rightarrow>
                (case store_if_absent nsval ''ipns'' (IpnsValidator (Peerstore h)) of
                   Inl e \<Rightarrow> Inl e
                 | Inr nsval' \<Rightarrow> Inr (c\<lparr>validator := nsval'\<rparr>)))
         else Inl (Errorf ''the default validator was changed without being marked as changed''))
      else Inr c)"

subsection \<open>The options\<close>

definition RoutingTableLatencyTolerance :: "duration \<Rightarrow> Option" where
  "RoutingTableLatencyTolerance latency c =
     Inr (c\<lparr>routingTable := (routingTable c)\<lparr>latencyTolerance := latency\<rparr>\<rparr>)"

definition RoutingTableRefreshQueryTimeout :: "duration \<Rightarrow> Option" where
  "RoutingTableRefreshQueryTimeout timeout c =
     Inr (c\<lparr>routingTable := (routingTable c)\<lparr>refreshQueryTimeout := timeout\<rparr>\<rparr>)"

definition RoutingTableRefreshPeriod :: "duration \<Rightarrow> Option" where
  "RoutingTableRefreshPeriod period c =
     Inr (c\<lparr>routingTable := (routingTable c)\<lparr>refreshInterval := period\<rparr>\<rparr>)"

definition Datastore :: "datastore \<Rightarrow> Option" where
  "Datastore ds c = Inr (c\<lparr>datastore := ds\<rparr>)"

definition Mode :: "ModeOpt \<Rightarrow> Option" where
  "Mode m c = Inr (c\<lparr>mode := m\<rparr>)"

definition Validator :: "validator \<Rightarrow> Option" where
  "Validator v c = Inr (c\<lparr>validator := v, validatorChanged := True\<rparr>)"

definition NamespacedValidator_opt :: "string \<Rightarrow> validator \<Rightarrow> Option" where
  "NamespacedValidator_opt ns v c =
     (if \<not> isNSVal (validator c) then
        Inl (Errorf ''can only add namespaced validators to a NamespacedValidator'')
      else
        (case ns_store (validator c) ns v of
           Inl e \<Rightarrow> Inl e
         | Inr nsval \<Rightarrow> Inr (c\<lparr>validator := nsval\<rparr>)))"

definition ProtocolPrefix :: "protocol_ID \<Rightarrow> Option" where
  "ProtocolPrefix prefix c = Inr (c\<lparr>protocolPrefix := prefix\<rparr>)"

definition ProtocolExtension :: "protocol_ID \<Rightarrow> Option" where
  "ProtocolExtension ext c = Inr (c\<lparr>protocolPrefix := protocolPrefix c @ ext\<rparr>)"

definition BucketSize :: "int \<Rightarrow> Option" where
  "BucketSize k c = Inr (c\<lparr>bucketSize := k\<rparr>)"

definition Concurrency :: "int \<Rightarrow> Option" where
  "Concurrency alpha c = Inr (c\<lparr>concurrency := alpha\<rparr>)"

definition Resiliency :: "int \<Rightarrow> Option" where
  "Resiliency beta c = Inr (c\<lparr>resiliency := beta\<rparr>)"

definition MaxRecordAge :: "duration \<Rightarrow> Option" where
  "MaxRecordAge maxAge c = Inr (c\<lparr>maxRecordAge := maxAge\<rparr>)"

definition DisableAutoRefresh :: Option where
  "DisableAutoRefresh c = Inr (c\<lparr>routingTable := (routingTable c)\<lparr>autoRefresh := False\<rparr>\<rparr>)"

definition DisableProviders :: Option where
  "DisableProviders c = Inr (c\<lparr>enableProviders := False\<rparr>)"

definition DisableValues :: Option where
  "DisableValues c = Inr (c\<lparr>enableValues := False\<rparr>)"

definition ProvidersOptions :: "nat list \<Rightarrow> Option" where
  "ProvidersOptions opts c = Inr (c\<lparr>providersOptions := opts\<rparr>)"

definition QueryFilter :: "QueryFilterFunc \<Rightarrow> Option" where
  "QueryFilter flt c = Inr (c\<lparr>queryPeerFilter := flt\<rparr>)"

definition RoutingTableFilter :: "RouteTableFilterFunc \<Rightarrow> Option" where
  "RoutingTableFilter flt c =
     Inr (c\<lparr>routingTable := (routingTable c)\<lparr>peerFilter := flt\<rparr>\<rparr>)"

definition EnableProtectAllBuckets :: Option where
  "EnableProtectAllBuckets c = Inr (c\<lparr>protectAllBuckets := True\<rparr>)"

definition ProtectedBuckets :: "int \<Rightarrow> Option" where
  "ProtectedBuckets maxCpl c = Inr (c\<lparr>protectedBuckets := maxCpl\<rparr>)"

definition EnableConsiderLatency :: Option where
  "EnableConsiderLatency c =
     Inr (c\<lparr>routingTable := (routingTable c)\<lparr>considerLatency := True\<rparr>\<rparr>)"

definition AvgBitsImprovedPerStep :: "real \<Rightarrow> Option" where
  "AvgBitsImprovedPerStep x c =
     Inr (c\<lparr>routingTable := (routingTable c)\<lparr>avgBitsImprovedPerStep := x\<rparr>\<rparr>)"

definition AvgRoundTripPerStep :: "real \<Rightarrow> Option" where
  "AvgRoundTripPerStep x c =
     Inr (c\<lparr>routingTable := (routingTable c)\<lparr>avgRoundTripPerStep := x\<rparr>\<rparr>)"

definition V1CompatibleMode :: "bool \<Rightarrow> Option" where
  "V1CompatibleMode enable c = Inr (c\<lparr>v1CompatibleMode := enable\<rparr>)"

definition BootstrapPeers :: "peer_ID list \<Rightarrow> Option" where
  "BootstrapPeers bootstrappers c = Inr (c\<lparr>bootstrapPeers := bootstrappers\<rparr>)"

subsection \<open>The recognized options, and the fields of a configuration\<close>

text \<open>One constructor for each exported option function of the file, with its arguments.\<close>

datatype option_call =
    Call_RoutingTableLatencyTolerance duration
  | Call_RoutingTableRefreshQueryTimeout duration
  | Call_RoutingTableRefreshPeriod duration
  | Call_Datastore datastore
  | Call_Mode ModeOpt
  | Call_Validator validator
  | Call_NamespacedValidator string validator
  | Call_ProtocolPrefix protocol_ID
  | Call_ProtocolExtension protocol_ID
  | Call_BucketSize int
  | Call_Concurrency int
  | Call_Resiliency int
  | Call_MaxRecordAge duration
  | Call_DisableAutoRefresh
  | Call_DisableProviders
  | Call_DisableValues
  | Call_ProvidersOptions "nat list"
  | Call_QueryFilter QueryFilterFunc
  | Call_RoutingTableFilter RouteTableFilterFunc
  | Call_EnableProtectAllBuckets
  | Call_ProtectedBuckets int
  | Call_EnableConsiderLatency
  | Call_AvgBitsImprovedPerStep real
  | Call_AvgRoundTripPerStep real
  | Call_V1CompatibleMode bool
  | Call_BootstrapPeers "peer_ID list"

fun option_of :: "option_call \<Rightarrow> Option" where
  "option_of (Call_RoutingTableLatencyTolerance d) = RoutingTableLatencyTolerance d"
| "option_of (Call_RoutingTableRefreshQueryTimeout d) = RoutingTableRefreshQueryTimeout d"
| "option_of (Call_RoutingTableRefreshPeriod d) = RoutingTableRefreshPeriod d"
| "option_of (Call_Datastore ds) = Datastore ds"
| "option_of (Call_Mode m) = Mode m"
| "option_of (Call_Validator v) = Validator v"
| "option_of (Call_NamespacedValidator ns v) = NamespacedValidator_opt ns v"
| "option_of (Call_ProtocolPrefix p) = ProtocolPrefix p"
| "option_of (Call_ProtocolExtension e) = ProtocolExtension e"
| "option_of (Call_BucketSize k) = BucketSize k"
| "option_of (Call_Concurrency a) = Concurrency a"
| "option_of (Call_Resiliency b) = Resiliency b"
| "option_of (Call_MaxRecordAge d) = MaxRecordAge d"
| "option_of Call_DisableAutoRefresh = DisableAutoRefresh"
| "option_of Call_DisableProviders = DisableProviders"
| "option_of Call_DisableValues = DisableValues"
| "option_of (Call_ProvidersOptions os) = ProvidersOptions os"
| "option_of (Call_QueryFilter f) = QueryFilter f"
| "option_of (Call_RoutingTableFilter f) = RoutingTableFilter f"
| "option_of Call_EnableProtectAllBuckets = EnableProtectAllBuckets"
| "option_of (Call_ProtectedBuckets n) = ProtectedBuckets n"
| "option_of Call_EnableConsiderLatency = EnableConsiderLatency"
| "option_of (Call_AvgBitsImprovedPerStep x) = AvgBitsImprovedPerStep x"
| "option_of (Call_AvgRoundTripPerStep x) = AvgRoundTripPerStep x"
| "option_of (Call_V1CompatibleMode b) = V1CompatibleMode b"
| "option_of (Call_BootstrapPeers ps) = BootstrapPeers ps"

text \<open>The fields of the struct, those of the nested \<open>routingTable\<close> struct included.\<close>

datatype field =
    F_datastore | F_validator | F_validatorChanged | F_mode | F_protocolPrefix
  | F_bucketSize | F_concurrency | F_resiliency | F_maxRecordAge | F_enableProviders
  | F_enableValues | F_providersOptions | F_queryPeerFilter | F_protectAllBuckets
  | F_protectedBuckets | F_refreshQueryTimeout | F_refreshInterval | F_autoRefresh
  | F_latencyTolerance | F_peerFilter | F_considerLatency | F_avgBitsImprovedPerStep
  | F_avgRoundTripPerStep | F_v1CompatibleMode | F_bootstrapPeers

definition all_fields :: "field list" where
  "all_fields =
     [F_datastore, F_validator, F_validatorChanged, F_mode, F_protocolPrefix,
      F_bucketSize, F_concurrency, F_resiliency, F_maxRecordAge, F_enableProviders,
      F_enableValues, F_providersOptions, F_queryPeerFilter, F_protectAllBuckets,
      F_protectedBuckets, F_refreshQueryTimeout, F_refreshInterval, F_autoRefresh,
      F_latencyTolerance, F_peerFilter, F_considerLatency, F_avgBitsImprovedPerStep,
      F_avgRoundTripPerStep, F_v1CompatibleMode, F_bootstrapPeers]"

text \<open>\<open>field_differs f c c'\<close>: the two configurations hold different values in field \<open>f\<close>.\<close>

fun field_differs :: "field \<Rightarrow> config \<Rightarrow> config \<Rightarrow> bool" where
  "field_differs F_datastore c c' = (datastore c \<noteq> datastore c')"
| "field_differs F_validator c c' = (validator c \<noteq> validator c')"
| "field_differs F_validatorChanged c c' = (validatorChanged c \<noteq> validatorChanged c')"
| "field_differs F_mode c c' = (mode c \<noteq> mode c')"
| "field_differs F_protocolPrefix c c' = (protocolPrefix c \<noteq> protocolPrefix c')"
| "field_differs F_bucketSize c c' = (bucketSize c \<noteq> bucketSize c')"
| "field_differs F_concurrency c c' = (concurrency c \<noteq> concurrency c')"
| "field_differs F_resiliency c c' = (resiliency c \<noteq> resiliency c')"
| "field_differs F_maxRecordAge c c' = (maxRecordAge c \<noteq> maxRecordAge c')"
| "field_differs F_enableProviders c c' = (enableProviders c \<noteq> enableProviders c')"
| "field_differs F_enableValues c c' = (enableValues c \<noteq> enableValues c')"
| "field_differs F_providersOptions c c' = (providersOptions c \<noteq> providersOptions c')"
| "field_differs F_queryPeerFilter c c' = (queryPeerFilter c \<noteq> queryPeerFilter c')"
| "field_differs F_protectAllBuckets c c' = (protectAllBuckets c \<noteq> protectAllBuckets c')"
| "field_differs F_protectedBuckets c c' = (protectedBuckets c \<noteq> protectedBuckets c')"
| "field_differs F_refreshQueryTimeout c c' =
     (refreshQueryTimeout (routingTable c) \<noteq> refreshQueryTimeout (routingTable c'))"
| "field_differs F_refreshInterval c c' =
     (refreshInterval (routingTable c) \<noteq> refreshInterval (routingTable c'))"
| "field_differs F_autoRefresh c c' =
     (autoRefresh (routingTable c) \<noteq> autoRefresh (routingTable c'))"
| "field_differs F_latencyTolerance c c' =
     (latencyTolerance (routingTable c) \<noteq> latencyTolerance (routingTable c'))"
| "field_differs F_peerFilter c c' =
     (peerFilter (routingTable c) \<noteq> peerFilter (routingTable c'))"
| "field_differs F_considerLatency c c' =
     (considerLatency (routingTable c) \<noteq> considerLatency (routingTable c'))"
| "field_differs F_avgBitsImprovedPerStep c c' =
     (avgBitsImprovedPerStep (routingTable c) \<noteq> avgBitsImprovedPerStep (routingTable c'))"
| "field_differs F_avgRoundTripPerStep c c' =
     (avgRoundTripPerStep (routingTable c) \<noteq> avgRoundTripPerStep (routingTable c'))"
| "field_differs F_v1CompatibleMode c c' = (v1CompatibleMode c \<noteq> v1CompatibleMode c')"
| "field_differs F_bootstrapPeers c c' = (bootstrapPeers c \<noteq> bootstrapPeers c')"

definition changed_fields :: "config \<Rightarrow> config \<Rightarrow> field list" where
  "changed_fields c c' = filter (\<lambda>f. field_differs f c c') all_fields"


subsection \<open>validate\<close>

text \<open>\<open>None\<close> is the \<open>nil\<close> error: the configuration is accepted.\<close>

definition validate :: "config \<Rightarrow> error option" where
  "validate c =
    (if protocolPrefix c \<noteq> DefaultPrefix then None
     else if bucketSize c \<noteq> defaultBucketSize then
       Some (Errorf ''protocol prefix /ipfs must use bucket size 20'')
     else if \<not> enableProviders c then
       Some (Errorf ''protocol prefix /ipfs must have providers enabled'')
     else if \<not> enableValues c then
       Some (Errorf ''protocol prefix /ipfs must have values enabled'')
     else if \<not> isNSVal (validator c) then
       Some (Errorf ''protocol prefix /ipfs must use a namespaced validator'')
     else if ns_len (validator c) \<noteq> 2 then
       Some (Errorf ''protocol prefix /ipfs must have exactly two namespaced validators - /pk and /ipns'')
     else
       (case ns_lookup (validator c) ''pk'' of
          None \<Rightarrow> Some (Errorf ''protocol prefix /ipfs must support the /pk namespaced validator'')
        | Some pkVal \<Rightarrow>
            if \<not> isPublicKeyValidator pkVal then
              Some (Errorf ''protocol prefix /ipfs must use the record.PublicKeyValidator for the /pk namespace'')
            else
              (case ns_lookup (validator c) ''ipns'' of
                 None \<Rightarrow> Some (Errorf ''protocol prefix /ipfs must support the /ipns namespaced validator'')
               | Some ipnsVal \<Rightarrow>
                   if \<not> isIpnsValidator ipnsVal then
                     Some (Errorf ''protocol prefix /ipfs must use ipns.Validator for the /ipns namespace'')
                   else None)))"

text \<open>The requirement the reserved prefix puts on a configuration, as the specification words it.\<close>

definition reserved_ok :: "config \<Rightarrow> bool" where
  "reserved_ok c \<longleftrightarrow>
     bucketSize c = 20 \<and> enableProviders c \<and> enableValues c \<and>
     (\<exists>m kb. validator c = NamespacedValidator m \<and> fmdom m = {|''pk'', ''ipns''|} \<and>
        fmlookup m ''pk'' = Some PublicKeyValidator \<and>
        fmlookup m ''ipns'' = Some (IpnsValidator kb))"





fun is_coefficient_option :: "option_call \<Rightarrow> bool" where
  "is_coefficient_option (Call_AvgBitsImprovedPerStep x) = True"
| "is_coefficient_option (Call_AvgRoundTripPerStep x) = True"
| "is_coefficient_option _ = False"

definition with_fallbacks :: "host \<Rightarrow> (string, validator) fmap \<Rightarrow> (string, validator) fmap" where
  "with_fallbacks h m =
     (let m1 = (if ''pk'' |\<in>| fmdom m then m else fmupd ''pk'' PublicKeyValidator m)
      in if ''ipns'' |\<in>| fmdom m1 then m1
         else fmupd ''ipns'' (IpnsValidator (Peerstore h)) m1)"

section \<open>Connection notifications (notif.go)\<close>

subsection \<open>The collaborators\<close>

text \<open>
  The handlers of \<open>notif.go\<close> are methods of the node (\<open>IpfsDHT\<close>), whose
  declaration lies outside the two source files, as do the routing table, the peerstore,
  the network and the connection manager. The node is modelled by the fields the
  handlers use. Each handler takes the node state it finds and returns the state it
  leaves: the lifecycle lock \<open>plk\<close> and the stream-map lock \<open>smlk\<close> make the
  sections they guard atomic, and the values a handler reads (the closing signal, the
  peerstore, the connectedness under the lock) are those of the state it is given.
  A \<open>go\<close> statement adds a task to \<open>spawned\<close>; the task runs later, as its own
  step.
\<close>

datatype connectedness =
  network_NotConnected | network_Connected | network_CanConnect | network_CannotConnect

text \<open>
  A stream carries what protocol negotiation on it answers: \<open>negotiate s protos\<close> is
  the result of \<open>mstream.SelectOneOf(protos, s)\<close>.
\<close>

record stream =
  stream_id :: nat
  negotiate :: "protocol_ID list \<Rightarrow> error + protocol_ID"

definition SelectOneOf :: "protocol_ID list \<Rightarrow> stream \<Rightarrow> error + protocol_ID" where
  "SelectOneOf protos s = negotiate s protos"

text \<open>A connection: its remote peer, and what \<open>v.NewStream()\<close> returns on it.\<close>

record conn =
  RemotePeer :: peer_ID
  NewStream :: "error + stream"

text \<open>
  Modelled from the spec: the peerstore interface
  \<open>SupportsProtocols(peer, ids...) \<rightarrow> (matched, err)\<close> and \<open>AddProtocols(peer, ids...)\<close>.
  The store keeps the protocols recorded for each peer; a lookup may fail.
\<close>

record peerstore =
  recorded :: "peer_ID \<Rightarrow> protocol_ID list"
  lookup_fails :: "peer_ID \<Rightarrow> bool"

definition SupportsProtocols ::
  "peerstore \<Rightarrow> peer_ID \<Rightarrow> protocol_ID list \<Rightarrow> error + protocol_ID list" where
  "SupportsProtocols ps p protos =
     (if lookup_fails ps p then Inl (Errorf ''peerstore lookup failed'')
      else Inr (filter (\<lambda>x. x \<in> set (recorded ps p)) protos))"

definition AddProtocols :: "peerstore \<Rightarrow> peer_ID \<Rightarrow> protocol_ID list \<Rightarrow> peerstore" where
  "AddProtocols ps p protos = ps\<lparr>recorded := (recorded ps)(p := recorded ps p @ protos)\<rparr>"

text \<open>
  A Go channel with a buffer: its capacity and the values waiting in it. The
  \<open>select\<close> statement with a \<open>default\<close> branch sends when the buffer has room and
  otherwise does nothing; no receiver is waiting on the channel.
\<close>

record 'a chan =
  chan_cap :: nat
  chan_buf :: "'a list"

definition try_send :: "'a \<Rightarrow> 'a chan \<Rightarrow> 'a chan" where
  "try_send x ch =
     (if length (chan_buf ch) < chan_cap ch then ch\<lparr>chan_buf := chan_buf ch @ [x]\<rparr> else ch)"

text \<open>
  The routing table and the constant \<open>minRTRefreshThreshold\<close> are declared outside
  the two source files: the handlers take them as a parameter, the three operations of
  the table on a table state of any type \<open>'rt\<close>.
\<close>

record 'rt deps =
  minRTRefreshThreshold :: int
  rt_Size :: "'rt \<Rightarrow> int"
  rt_Update :: "peer_ID \<Rightarrow> 'rt \<Rightarrow> 'rt"
  rt_Remove :: "peer_ID \<Rightarrow> 'rt \<Rightarrow> 'rt"

text \<open>The calls a handler makes on its collaborators, in the order it makes them.\<close>

datatype call =
    RT_Update peer_ID
  | RT_Remove peer_ID
  | CM_Unprotect peer_ID string
  | PS_AddProtocols peer_ID protocol_ID
  | FullClose nat
  | Refresh_Attempt

type_synonym messageSender = nat

datatype task = Go_testConnection conn | Go_invalidate messageSender

record 'rt IpfsDHT =
  closing :: bool
  peerstore :: peerstore
  protocolStrs :: "protocol_ID list"
  connectedness :: "peer_ID \<Rightarrow> connectedness"
  network_peers :: "peer_ID list"
  protected :: "(peer_ID \<times> string) set"
  routingTable :: "'rt"
  autoRefresh :: bool
  triggerRtRefresh :: "nat option chan"
  strmap :: "peer_ID \<rightharpoonup> messageSender"
  spawned :: "task list"
  calls :: "call list"

subsection \<open>The handlers\<close>

text \<open>
  Modelled from the spec: the method \<open>dht.Update\<close> is declared outside the two
  source files; it calls \<open>RoutingTable.Update(peer)\<close>.
\<close>

definition Update :: "'rt deps \<Rightarrow> peer_ID \<Rightarrow> 'rt IpfsDHT \<Rightarrow> 'rt IpfsDHT" where
  "Update d p dht =
     dht\<lparr>routingTable := rt_Update d p (routingTable dht), calls := calls dht @ [RT_Update p]\<rparr>"

text \<open>
  \<open>select { case dht.triggerRtRefresh <- nil: default: }\<close>: the value sent is
  \<open>nil\<close>.
\<close>

definition signal_refresh :: "'rt IpfsDHT \<Rightarrow> 'rt IpfsDHT" where
  "signal_refresh dht =
     dht\<lparr>triggerRtRefresh := try_send None (triggerRtRefresh dht),
         calls := calls dht @ [Refresh_Attempt]\<rparr>"

text \<open>
  The block under the lifecycle lock, which \<open>Connected\<close> and \<open>testConnection\<close>
  both end with.
\<close>

definition admit :: "'rt deps \<Rightarrow> peer_ID \<Rightarrow> 'rt IpfsDHT \<Rightarrow> 'rt IpfsDHT" where
  "admit d p dht =
     (if connectedness dht p = network_Connected then
        (let refresh = (rt_Size d (routingTable dht) \<le> minRTRefreshThreshold d);
             dht' = Update d p dht
         in if refresh \<and> autoRefresh dht' then signal_refresh dht' else dht')
      else dht)"

definition Connected :: "'rt deps \<Rightarrow> conn \<Rightarrow> 'rt IpfsDHT \<Rightarrow> 'rt IpfsDHT" where
  "Connected d v dht =
     (if closing dht then dht
      else
        (let p = RemotePeer v in
         case SupportsProtocols (peerstore dht) p (protocolStrs dht) of
           Inr protos \<Rightarrow>
             if protos \<noteq> [] then admit d p dht
             else dht\<lparr>spawned := spawned dht @ [Go_testConnection v]\<rparr>
         | Inl err \<Rightarrow> dht\<lparr>spawned := spawned dht @ [Go_testConnection v]\<rparr>))"

text \<open>\<open>defer helpers.FullClose(s)\<close> runs when the function returns.\<close>

definition testConnection :: "'rt deps \<Rightarrow> conn \<Rightarrow> 'rt IpfsDHT \<Rightarrow> 'rt IpfsDHT" where
  "testConnection d v dht =
     (let p = RemotePeer v in
      case NewStream v of
        Inl err \<Rightarrow> dht
      | Inr s \<Rightarrow>
          (let closed = (\<lambda>dht'. dht'\<lparr>calls := calls dht' @ [FullClose (stream_id s)]\<rparr>) in
           case SelectOneOf (protocolStrs dht) s of
             Inl err \<Rightarrow> closed dht
           | Inr selected \<Rightarrow>
               closed (admit d p
                 (dht\<lparr>peerstore := AddProtocols (peerstore dht) p [selected],
                      calls := calls dht @ [PS_AddProtocols p selected]\<rparr>))))"

text \<open>The loop of \<open>Disconnected\<close> over the peers the network is connected to.\<close>

fun readmit :: "'rt deps \<Rightarrow> peer_ID list \<Rightarrow> 'rt IpfsDHT \<Rightarrow> 'rt IpfsDHT" where
  "readmit d [] dht = dht"
| "readmit d (p # ps) dht =
     readmit d ps
       (case SupportsProtocols (peerstore dht) p (protocolStrs dht) of
          Inr protos \<Rightarrow> if protos \<noteq> [] then Update d p dht else dht
        | Inl err \<Rightarrow> dht)"

definition Disconnected :: "'rt deps \<Rightarrow> conn \<Rightarrow> 'rt IpfsDHT \<Rightarrow> 'rt IpfsDHT" where
  "Disconnected d v dht =
     (if closing dht then dht
      else
        (let p = RemotePeer v in
         if connectedness dht p = network_Connected then dht
         else
           (let dht1 = dht\<lparr>routingTable := rt_Remove d p (routingTable dht),
                          calls := calls dht @ [RT_Remove p]\<rparr>;
                dht2 = dht1\<lparr>protected := protected dht1 - {(p, ''routingTable'')},
                           calls := calls dht1 @ [CM_Unprotect p ''routingTable'']\<rparr>;
                dht3 = (if rt_Size d (routingTable dht2) < minRTRefreshThreshold d
                        then readmit d (network_peers dht2) dht2 else dht2)
            in case strmap dht3 p of
                 None \<Rightarrow> dht3
               | Some ms \<Rightarrow>
                   dht3\<lparr>strmap := (strmap dht3)(p := None),
                        spawned := spawned dht3 @ [Go_invalidate ms]\<rparr>)))"

text \<open>The other notifications do nothing.\<close>

definition OpenedStream :: "'rt IpfsDHT \<Rightarrow> 'rt IpfsDHT" where
  "OpenedStream dht = dht"

definition ClosedStream :: "'rt IpfsDHT \<Rightarrow> 'rt IpfsDHT" where
  "ClosedStream dht = dht"

definition Listen :: "'rt IpfsDHT \<Rightarrow> 'rt IpfsDHT" where
  "Listen dht = dht"

definition ListenClose :: "'rt IpfsDHT \<Rightarrow> 'rt IpfsDHT" where
  "ListenClose dht = dht"

subsection \<open>A routing table and a node to run the handlers on\<close>

text \<open>
  Modelled from the spec: the routing table as a set of peer identities, with
  \<open>Update\<close> admitting a peer, \<open>Remove\<close> removing it and \<open>Size\<close> counting them.
  Here the set is a list without repetitions; the refresh threshold is a parameter.
\<close>

definition peer_table :: "int \<Rightarrow> peer_ID list deps" where
  "peer_table threshold = \<lparr>
     minRTRefreshThreshold = threshold,
     rt_Size = (\<lambda>t. int (length t)),
     rt_Update = (\<lambda>p t. if p \<in> set t then t else t @ [p]),
     rt_Remove = (\<lambda>p t. removeAll p t) \<rparr>"

text \<open>
  A running node with the given peers in its table, every one of them connected, the
  protocol \<open>/ipfs/kad/1.0.0\<close> recorded for each peer in \<open>known\<close>, automatic refresh
  as the flag says, and an empty refresh-request channel of the given capacity.
\<close>

definition node ::
  "peer_ID list \<Rightarrow> peer_ID list \<Rightarrow> bool \<Rightarrow> nat \<Rightarrow> peer_ID list IpfsDHT" where
  "node table known auto cap = \<lparr>
     closing = False,
     peerstore = \<lparr> recorded = (\<lambda>p. if p \<in> set known then [''/ipfs/kad/1.0.0''] else []),
                   lookup_fails = (\<lambda>p. False) \<rparr>,
     protocolStrs = [''/ipfs/kad/1.0.0''],
     connectedness = (\<lambda>p. network_Connected),
     network_peers = table,
     protected = {},
     routingTable = table,
     autoRefresh = auto,
     triggerRtRefresh = \<lparr> chan_cap = cap, chan_buf = [] \<rparr>,
     strmap = Map.empty,
     spawned = [],
     calls = [] \<rparr>"

text \<open>
  \<open>cached dht p\<close>: the peerstore answers, without error, that \<open>p\<close> supports one of
  the protocols of the node (\<open>err == nil && len(protos) != 0\<close>).
\<close>

definition cached :: "'rt IpfsDHT \<Rightarrow> peer_ID \<Rightarrow> bool" where
  "cached dht p =
     (case SupportsProtocols (peerstore dht) p (protocolStrs dht) of
        Inr protos \<Rightarrow> protos \<noteq> [] | Inl err \<Rightarrow> False)"

text \<open>A stream on which protocol negotiation finds no common protocol.\<close>

definition refusing_stream :: stream where
  "refusing_stream = \<lparr>stream_id = 4,
     negotiate = (\<lambda>protos. Inl (Errorf ''protocol not supported''))\<rparr>"

section \<open>Properties of the construction options\<close>

subsection \<open>validate and the reserved prefix\<close>

lemma fcard_two_members:
  assumes "fcard S = 2" and "a |\<in>| S" and "b |\<in>| S" and "a \<noteq> b"
  shows "S = {|a, b|}"
proof -
  have sub: "{|a, b|} |\<subseteq>| S" using assms by auto
  have "fcard {|a, b|} = 2" using assms(4) by (simp add: fcard_finsert_if)
  then have "fcard {|a, b|} = fcard S" using assms(1) by simp
  then show ?thesis using sub
    by (metis fcard_seteq order_refl)
qed

lemma validate_accepts_iff:
  "validate c = None \<longleftrightarrow> protocolPrefix c \<noteq> DefaultPrefix \<or> reserved_ok c"
proof (cases "protocolPrefix c = DefaultPrefix")
  case False
  then show ?thesis by (simp add: validate_def)
next
  case True
  show ?thesis
  proof (cases "validator c")
    case (NamespacedValidator m)
    have pk_ne: "''pk'' \<noteq> ''ipns''" by simp
    show ?thesis
    proof
      assume v: "validate c = None"
      from v True NamespacedValidator
      have b: "bucketSize c = 20" "enableProviders c" "enableValues c"
        and card: "fcard (fmdom m) = 2"
        by (auto simp: validate_def defaultBucketSize_def split: if_splits)
      from v True NamespacedValidator b card
      obtain pkVal where pk: "fmlookup m ''pk'' = Some pkVal"
        by (auto simp: validate_def defaultBucketSize_def split: if_splits option.splits)
      from v True NamespacedValidator b card pk
      have pkv: "pkVal = PublicKeyValidator"
        by (cases pkVal)
          (auto simp: validate_def defaultBucketSize_def split: if_splits option.splits)
      from v True NamespacedValidator b card pk pkv
      obtain ipnsVal where ip: "fmlookup m ''ipns'' = Some ipnsVal"
        by (auto simp: validate_def defaultBucketSize_def split: if_splits option.splits)
      from v True NamespacedValidator b card pk pkv ip
      obtain kb where ipv: "ipnsVal = IpnsValidator kb"
        by (cases ipnsVal)
          (auto simp: validate_def defaultBucketSize_def split: if_splits option.splits)
      have d1: "''pk'' |\<in>| fmdom m" using pk by (rule fmdomI)
      have d2: "''ipns'' |\<in>| fmdom m" using ip by (rule fmdomI)
      have "fmdom m = {|''pk'', ''ipns''|}"
        by (rule fcard_two_members [OF card d1 d2 pk_ne])
      then have "reserved_ok c" using b pk pkv ip ipv NamespacedValidator
        unfolding reserved_ok_def by blast
      then show "protocolPrefix c \<noteq> DefaultPrefix \<or> reserved_ok c" ..
    next
      assume "protocolPrefix c \<noteq> DefaultPrefix \<or> reserved_ok c"
      then have r: "reserved_ok c" using True by simp
      then obtain kb where "bucketSize c = 20" "enableProviders c" "enableValues c"
        "fmdom m = {|''pk'', ''ipns''|}" "fmlookup m ''pk'' = Some PublicKeyValidator"
        "fmlookup m ''ipns'' = Some (IpnsValidator kb)"
        using NamespacedValidator by (auto simp: reserved_ok_def)
      then show "validate c = None" using True NamespacedValidator pk_ne
        by (simp add: validate_def defaultBucketSize_def fcard_finsert_if)
    qed
  qed (auto simp: validate_def reserved_ok_def True)
qed

lemma validate_error_form:
  "validate c = None \<or> (\<exists>msg. validate c = Some (Errorf msg))"
  by (simp add: validate_def split: option.splits)

text \<open>
  Claim C1. \<open>validate\<close> accepts every configuration whose protocol prefix is not the
  reserved default \<open>/ipfs\<close>. Under the reserved prefix it accepts a configuration if
  and only if the bucket size is 20, provider and value storage are both enabled, and the
  validator is a namespaced validator with exactly the two namespaces \<open>pk\<close>, bound to
  the public-key validator, and \<open>ipns\<close>, bound to an IPNS validator. Every rejection
  is an error value returned to the constructor.
\<close>

theorem validate_reserved_prefix:
  "(protocolPrefix c \<noteq> DefaultPrefix \<longrightarrow> validate c = None) \<and>
   (protocolPrefix c = DefaultPrefix \<longrightarrow> (validate c = None \<longleftrightarrow> reserved_ok c)) \<and>
   (protocolPrefix c = DefaultPrefix \<and> \<not> reserved_ok c \<longrightarrow>
      (\<exists>msg. validate c = Some (Errorf msg)))"
proof (intro conjI impI)
  assume "protocolPrefix c \<noteq> DefaultPrefix"
  then show "validate c = None" by (simp add: validate_accepts_iff)
next
  assume "protocolPrefix c = DefaultPrefix"
  then show "validate c = None \<longleftrightarrow> reserved_ok c" by (simp add: validate_accepts_iff)
next
  assume "protocolPrefix c = DefaultPrefix \<and> \<not> reserved_ok c"
  then have "validate c \<noteq> None" by (simp add: validate_accepts_iff)
  then show "\<exists>msg. validate c = Some (Errorf msg)"
    using validate_error_form [of c] by auto
qed

theorem validate_reserved_prefix_witness:
  "validate (zero_config\<lparr>protocolPrefix := ''/myapp''\<rparr>) = None \<and>
   validate (zero_config\<lparr>protocolPrefix := ''/ipfs'', bucketSize := 20,
      enableProviders := True, enableValues := True,
      validator := NamespacedValidator
        (fmupd ''ipns'' (IpnsValidator 7) (fmupd ''pk'' PublicKeyValidator fmempty))\<rparr>) = None \<and>
   validate (zero_config\<lparr>protocolPrefix := ''/ipfs'', bucketSize := 5\<rparr>)
     = Some (Errorf ''protocol prefix /ipfs must use bucket size 20'')"
proof -
  let ?a = "zero_config\<lparr>protocolPrefix := ''/myapp''\<rparr>"
  let ?g = "zero_config\<lparr>protocolPrefix := ''/ipfs'', bucketSize := 20,
      enableProviders := True, enableValues := True,
      validator := NamespacedValidator
        (fmupd ''ipns'' (IpnsValidator 7) (fmupd ''pk'' PublicKeyValidator fmempty))\<rparr>"
  let ?b = "zero_config\<lparr>protocolPrefix := ''/ipfs'', bucketSize := 5\<rparr>"
  have a: "protocolPrefix ?a \<noteq> DefaultPrefix" by (simp add: DefaultPrefix_def)
  have g: "protocolPrefix ?g = DefaultPrefix" by (simp add: DefaultPrefix_def)
  have gr: "reserved_ok ?g" by (auto simp: reserved_ok_def)
  have b: "protocolPrefix ?b = DefaultPrefix \<and> \<not> reserved_ok ?b"
    by (simp add: DefaultPrefix_def reserved_ok_def)
  have 1: "validate ?a = None" using validate_reserved_prefix [of ?a] a by blast
  have 2: "validate ?g = None" using validate_reserved_prefix [of ?g] g gr by blast
  have "\<exists>msg. validate ?b = Some (Errorf msg)"
    using validate_reserved_prefix [of ?b] b by blast
  then have 3: "validate ?b = Some (Errorf ''protocol prefix /ipfs must use bucket size 20'')"
    by (simp add: validate_def DefaultPrefix_def defaultBucketSize_def)
  show ?thesis using 1 2 3 by blast
qed


subsection \<open>applyFallbacks\<close>

lemma store_if_absent_map:
  "store_if_absent (NamespacedValidator m) ns v =
     Inr (NamespacedValidator (case fmlookup m ns of None \<Rightarrow> fmupd ns v m | Some old \<Rightarrow> m))"
  by (simp add: store_if_absent_def split: option.splits)

lemma applyFallbacks_map:
  "\<not> validatorChanged c \<Longrightarrow> validator c = NamespacedValidator m \<Longrightarrow>
     applyFallbacks h c = Inr (c\<lparr>validator := NamespacedValidator (with_fallbacks h m)\<rparr>)"
  by (auto simp: applyFallbacks_def store_if_absent_map with_fallbacks_def Let_def fmdom_notI
      split: option.splits dest: fmdom_notD)

lemma with_fallbacks_lookup:
  "fmlookup (with_fallbacks h m) ns =
     (case fmlookup m ns of
        Some v \<Rightarrow> Some v
      | None \<Rightarrow> if ns = ''pk'' then Some PublicKeyValidator
                else if ns = ''ipns'' then Some (IpnsValidator (Peerstore h)) else None)"
  by (auto simp: with_fallbacks_def Let_def split: option.splits dest: fmdom_notD
      intro: fmdomI)

lemma applyFallbacks_error_iff:
  "(\<exists>msg. applyFallbacks h c = Inl (Errorf msg)) \<longleftrightarrow>
     \<not> validatorChanged c \<and> \<not> isNSVal (validator c)"
  by (cases "validator c")
    (auto simp: applyFallbacks_def store_if_absent_def split: option.splits sum.splits)

lemma applyFallbacks_nil_map:
  "\<not> validatorChanged c \<Longrightarrow> validator c = NilNamespacedValidator \<Longrightarrow>
     applyFallbacks h c = Inl (Panic ''assignment to entry in nil map'')"
  by (simp add: applyFallbacks_def store_if_absent_def)

text \<open>
  Claim C2, as the specification states it, fails: a validator replaced through the
  \<open>Validator\<close> option by one that is not namespaced is accepted by
  \<open>applyFallbacks\<close>, which returns no error and leaves the configuration as it is.
\<close>

theorem applyFallbacks_replaced_counterexample:
  "config_apply [defaults, Validator PublicKeyValidator] zero_config
     = Inr (projr (config_apply [defaults, Validator PublicKeyValidator] zero_config)) \<and>
   validatorChanged (projr (config_apply [defaults, Validator PublicKeyValidator] zero_config)) \<and>
   \<not> isNSVal (validator (projr (config_apply [defaults, Validator PublicKeyValidator] zero_config))) \<and>
   applyFallbacks (Host 7) (projr (config_apply [defaults, Validator PublicKeyValidator] zero_config))
     = Inr (projr (config_apply [defaults, Validator PublicKeyValidator] zero_config))"
  by (simp add: config_apply_def defaults_def Validator_def applyFallbacks_def)

text \<open>
  Claim C2, amended. When the validator was replaced by an option (the flag
  \<open>validatorChanged\<close> is set), \<open>applyFallbacks\<close> returns no error and changes
  nothing, whatever the validator is. When it was not replaced and is a namespaced map,
  \<open>applyFallbacks\<close> returns no error and changes only the map: every namespace already
  present keeps its validator, and \<open>pk\<close> and \<open>ipns\<close> are bound to the public-key
  validator and to the IPNS validator over the host's peerstore where they were absent.
  \<open>applyFallbacks\<close> returns an error exactly when the validator was not marked as
  replaced and is not a namespaced validator.
\<close>

theorem applyFallbacks_cases:
  "(validatorChanged c \<longrightarrow> applyFallbacks h c = Inr c) \<and>
   (\<forall>m. \<not> validatorChanged c \<and> validator c = NamespacedValidator m \<longrightarrow>
      applyFallbacks h c = Inr (c\<lparr>validator := NamespacedValidator (with_fallbacks h m)\<rparr>) \<and>
      (\<forall>ns. fmlookup (with_fallbacks h m) ns =
         (case fmlookup m ns of
            Some v \<Rightarrow> Some v
          | None \<Rightarrow> if ns = ''pk'' then Some PublicKeyValidator
                    else if ns = ''ipns'' then Some (IpnsValidator (Peerstore h))
                    else None))) \<and>
   ((\<exists>msg. applyFallbacks h c = Inl (Errorf msg)) \<longleftrightarrow>
      \<not> validatorChanged c \<and> \<not> isNSVal (validator c))"
proof (intro conjI allI impI)
  assume "validatorChanged c"
  then show "applyFallbacks h c = Inr c" by (simp add: applyFallbacks_def)
next
  fix m assume "\<not> validatorChanged c \<and> validator c = NamespacedValidator m"
  then show "applyFallbacks h c = Inr (c\<lparr>validator := NamespacedValidator (with_fallbacks h m)\<rparr>)"
    by (simp add: applyFallbacks_map)
next
  fix m ns
  show "fmlookup (with_fallbacks h m) ns =
         (case fmlookup m ns of
            Some v \<Rightarrow> Some v
          | None \<Rightarrow> if ns = ''pk'' then Some PublicKeyValidator
                    else if ns = ''ipns'' then Some (IpnsValidator (Peerstore h))
                    else None)"
    by (rule with_fallbacks_lookup)
next
  show "(\<exists>msg. applyFallbacks h c = Inl (Errorf msg)) \<longleftrightarrow>
      \<not> validatorChanged c \<and> \<not> isNSVal (validator c)"
    by (rule applyFallbacks_error_iff)
qed

theorem applyFallbacks_cases_witness:
  "applyFallbacks (Host 7) (zero_config\<lparr>validator := PublicKeyValidator, validatorChanged := True\<rparr>)
     = Inr (zero_config\<lparr>validator := PublicKeyValidator, validatorChanged := True\<rparr>) \<and>
   applyFallbacks (Host 7)
       (zero_config\<lparr>validator := NamespacedValidator (fmupd ''pk'' (OtherValidator 3) fmempty)\<rparr>)
     = Inr (zero_config\<lparr>validator := NamespacedValidator
         (fmupd ''ipns'' (IpnsValidator 7) (fmupd ''pk'' (OtherValidator 3) fmempty))\<rparr>) \<and>
   applyFallbacks (Host 7) zero_config
     = Inl (Errorf ''the default validator was changed without being marked as changed'')"
proof -
  let ?r = "zero_config\<lparr>validator := PublicKeyValidator, validatorChanged := True\<rparr>"
  let ?m = "fmupd ''pk'' (OtherValidator 3) fmempty"
  let ?n = "zero_config\<lparr>validator := NamespacedValidator ?m\<rparr>"
  have r: "validatorChanged ?r" by simp
  have n: "\<not> validatorChanged ?n \<and> validator ?n = NamespacedValidator ?m"
    by (simp add: zero_config_def)
  have z: "\<not> validatorChanged zero_config \<and> \<not> isNSVal (validator zero_config)"
    by (simp add: zero_config_def)
  have 1: "applyFallbacks (Host 7) ?r = Inr ?r"
    using applyFallbacks_cases [of ?r "Host 7", THEN conjunct1] r by simp
  have "applyFallbacks (Host 7) ?n
          = Inr (?n\<lparr>validator := NamespacedValidator (with_fallbacks (Host 7) ?m)\<rparr>)"
    using applyFallbacks_cases [of ?n "Host 7", THEN conjunct2, THEN conjunct1] n by simp
  moreover have "with_fallbacks (Host 7) ?m = fmupd ''ipns'' (IpnsValidator 7) ?m"
    by (simp add: with_fallbacks_def)
  ultimately have 2: "applyFallbacks (Host 7) ?n
      = Inr (zero_config\<lparr>validator := NamespacedValidator (fmupd ''ipns'' (IpnsValidator 7) ?m)\<rparr>)"
    by simp
  have "\<exists>msg. applyFallbacks (Host 7) zero_config = Inl (Errorf msg)"
    using applyFallbacks_cases [of zero_config "Host 7", THEN conjunct2, THEN conjunct2] z
    by simp
  then have 3: "applyFallbacks (Host 7) zero_config
      = Inl (Errorf ''the default validator was changed without being marked as changed'')"
    by (simp add: applyFallbacks_def zero_config_def)
  show ?thesis using 1 2 3 by (intro conjI)
qed

subsection \<open>The fields an option changes\<close>

lemmas option_defs =
  RoutingTableLatencyTolerance_def RoutingTableRefreshQueryTimeout_def
  RoutingTableRefreshPeriod_def Datastore_def Mode_def Validator_def
  NamespacedValidator_opt_def ProtocolPrefix_def ProtocolExtension_def BucketSize_def
  Concurrency_def Resiliency_def MaxRecordAge_def DisableAutoRefresh_def
  DisableProviders_def DisableValues_def ProvidersOptions_def QueryFilter_def
  RoutingTableFilter_def EnableProtectAllBuckets_def ProtectedBuckets_def
  EnableConsiderLatency_def AvgBitsImprovedPerStep_def AvgRoundTripPerStep_def
  V1CompatibleMode_def BootstrapPeers_def



text \<open>The list of fields is complete: two configurations that differ in no field are equal.\<close>

lemma changed_fields_Nil_iff: "changed_fields c c' = [] \<longleftrightarrow> c = c'"
proof
  assume "changed_fields c c' = []"
  then have "\<forall>f \<in> set all_fields. \<not> field_differs f c c'"
    by (simp add: changed_fields_def filter_empty_conv)
  then have "config.routingTable c = config.routingTable c'"
    and rest: "\<forall>f \<in> set all_fields. \<not> field_differs f c c'"
    by (auto simp: all_fields_def intro: routingTable_config.equality)
  then show "c = c'"
    by (auto simp: all_fields_def intro: config.equality)
next
  assume "c = c'"
  then show "changed_fields c c' = []"
    by (simp add: changed_fields_def all_fields_def)
qed






text \<open>On the nil map the option neither succeeds nor returns an error: the store panics.\<close>

lemma NamespacedValidator_opt_nil_map:
  "validator c = NilNamespacedValidator \<Longrightarrow>
     NamespacedValidator_opt ns v c = Inl (Panic ''assignment to entry in nil map'')"
  by (simp add: NamespacedValidator_opt_def)




lemma ProtocolExtension_Nil: "option_of (Call_ProtocolExtension []) c = Inr c"
  by (simp add: ProtocolExtension_def)







subsection \<open>The latency coefficients of the default configuration\<close>

lemma Log2_20_neq_40: "Log2 20 \<noteq> Log2 40"
proof -
  have "log 2 (20::real) < log 2 40" by simp
  then show ?thesis unfolding Log2_def by linarith
qed

lemma Log2_eq_20_iff:
  assumes "0 < k"
  shows "Log2 (real_of_int k) = Log2 20 \<longleftrightarrow> k = 20"
proof
  assume eq: "Log2 (real_of_int k) = Log2 20"
  have pos: "0 < real_of_int k" using assms by simp
  have "\<not> real_of_int k < 20"
  proof
    assume "real_of_int k < 20"
    then have "log 2 (real_of_int k) < log 2 20" using pos by simp
    then show False using eq by (simp add: Log2_def)
  qed
  moreover have "\<not> 20 < real_of_int k"
  proof
    assume "20 < real_of_int k"
    then have "log 2 20 < log 2 (real_of_int k)" using pos by simp
    then show False using eq by (simp add: Log2_def)
  qed
  ultimately have "real_of_int k = 20" by linarith
  then show "k = 20" by linarith
next
  assume "k = 20"
  then show "Log2 (real_of_int k) = Log2 20" by simp
qed

lemma option_keeps_coefficients:
  assumes "\<not> is_coefficient_option oc" and "option_of oc c = Inr c'"
  shows "avgBitsImprovedPerStep (config.routingTable c')
           = avgBitsImprovedPerStep (config.routingTable c) \<and>
         avgRoundTripPerStep (config.routingTable c')
           = avgRoundTripPerStep (config.routingTable c)"
  using assms
  by (cases oc) (auto simp: option_defs split: if_splits sum.splits)

lemma apply_from_keeps_coefficients:
  assumes "\<forall>oc \<in> set ocs. \<not> is_coefficient_option oc"
    and "apply_from i (map option_of ocs) c = Inr c'"
  shows "avgBitsImprovedPerStep (config.routingTable c')
           = avgBitsImprovedPerStep (config.routingTable c) \<and>
         avgRoundTripPerStep (config.routingTable c')
           = avgRoundTripPerStep (config.routingTable c)"
  using assms
proof (induction ocs arbitrary: i c)
  case Nil
  then show ?case by simp
next
  case (Cons oc ocs)
  from Cons.prems(2) obtain c1 where c1: "option_of oc c = Inr c1"
    and rest: "apply_from (Suc i) (map option_of ocs) c1 = Inr c'"
    by (auto split: sum.splits error.splits)
  have "\<not> is_coefficient_option oc" using Cons.prems(1) by simp
  from option_keeps_coefficients [OF this c1] Cons.IH [OF _ rest] Cons.prems(1)
  show ?case by simp
qed

text \<open>
  Claim C9, as the specification states it, fails: the default of
  \<open>avgBitsImprovedPerStep\<close> is computed from the constant \<open>defaultBucketSize\<close>,
  and the \<open>BucketSize\<close> option does not touch it. With the bucket size configured
  to 40 the coefficient is not \<open>1.3327 + log2(40)\<close>.
\<close>

theorem defaults_BucketSize_counterexample:
  "config_apply [defaults, BucketSize 40] zero_config
     = Inr (projr (config_apply [defaults, BucketSize 40] zero_config)) \<and>
   bucketSize (projr (config_apply [defaults, BucketSize 40] zero_config)) = 40 \<and>
   avgBitsImprovedPerStep
       (config.routingTable (projr (config_apply [defaults, BucketSize 40] zero_config)))
     \<noteq> 1.3327 + Log2 (real_of_int
           (bucketSize (projr (config_apply [defaults, BucketSize 40] zero_config))))"
  using Log2_20_neq_40
  by (simp add: config_apply_def defaults_def BucketSize_def defaultBucketSize_def)

text \<open>
  Claim C9, amended. In a configuration built from the defaults by recognized options,
  none of them one of the two coefficient options, \<open>avgRoundTripPerStep\<close> is 4 and
  \<open>avgBitsImprovedPerStep\<close> is \<open>1.3327 + log2(20)\<close>, 20 being the fixed default
  bucket size, whatever bucket size is configured. For a positive configured bucket size
  \<open>k\<close> it equals \<open>1.3327 + log2(k)\<close> only when \<open>k\<close> is 20.
\<close>

theorem defaults_coefficients:
  assumes "\<forall>oc \<in> set ocs. \<not> is_coefficient_option oc"
    and "config_apply (defaults # map option_of ocs) zero_config = Inr c"
  shows "avgRoundTripPerStep (config.routingTable c) = 4 \<and>
         avgBitsImprovedPerStep (config.routingTable c) = 1.3327 + Log2 20 \<and>
         (0 < bucketSize c \<longrightarrow>
            (avgBitsImprovedPerStep (config.routingTable c)
               = 1.3327 + Log2 (real_of_int (bucketSize c)) \<longleftrightarrow> bucketSize c = 20))"
proof -
  obtain c0 where c0: "defaults zero_config = Inr c0"
    and v: "avgRoundTripPerStep (config.routingTable c0) = 4"
      "avgBitsImprovedPerStep (config.routingTable c0) = 1.3327 + Log2 20"
    by (simp add: defaults_def defaultBucketSize_def)
  from assms(2) c0 have "apply_from (Suc 0) (map option_of ocs) c0 = Inr c"
    by (simp add: config_apply_def)
  from apply_from_keeps_coefficients [OF assms(1) this] v
  have k: "avgRoundTripPerStep (config.routingTable c) = 4"
    "avgBitsImprovedPerStep (config.routingTable c) = 1.3327 + Log2 20"
    by simp_all
  have "avgBitsImprovedPerStep (config.routingTable c)
          = 1.3327 + Log2 (real_of_int (bucketSize c)) \<longleftrightarrow> bucketSize c = 20"
    if "0 < bucketSize c"
    using Log2_eq_20_iff [OF that] k(2) by auto
  then show ?thesis using k by simp
qed

theorem defaults_coefficients_witness:
  "config_apply (defaults # map option_of [Call_BucketSize 40]) zero_config
     = Inr (projr (config_apply (defaults # map option_of [Call_BucketSize 40]) zero_config)) \<and>
   bucketSize (projr (config_apply (defaults # map option_of [Call_BucketSize 40]) zero_config))
     = 40 \<and>
   avgRoundTripPerStep (config.routingTable
     (projr (config_apply (defaults # map option_of [Call_BucketSize 40]) zero_config))) = 4 \<and>
   avgBitsImprovedPerStep (config.routingTable
     (projr (config_apply (defaults # map option_of [Call_BucketSize 40]) zero_config)))
     = 1.3327 + Log2 20"
proof -
  let ?r = "config_apply (defaults # map option_of [Call_BucketSize 40]) zero_config"
  have r: "?r = Inr (projr ?r)"
    by (simp add: config_apply_def defaults_def BucketSize_def)
  have b: "bucketSize (projr ?r) = 40"
    by (simp add: config_apply_def defaults_def BucketSize_def)
  have h: "\<forall>oc \<in> set [Call_BucketSize 40]. \<not> is_coefficient_option oc" by simp
  note t = defaults_coefficients [OF h r]
  show ?thesis using r b t [THEN conjunct1] t [THEN conjunct2, THEN conjunct1]
    by (intro conjI)
qed

subsection \<open>ProtocolPrefix and ProtocolExtension\<close>

text \<open>
  Claim C10. \<open>ProtocolExtension\<close> appends to the current protocol prefix and
  \<open>ProtocolPrefix\<close> replaces it: the extension followed by the prefix leaves the
  prefix alone, the prefix followed by the extension leaves the prefix with the
  extension appended, two extensions are both appended in order, and so the two options
  do not commute for any extension that is not empty.
\<close>

theorem ProtocolPrefix_ProtocolExtension_order:
  "config_apply [ProtocolExtension e, ProtocolPrefix p] c = Inr (c\<lparr>protocolPrefix := p\<rparr>) \<and>
   config_apply [ProtocolPrefix p, ProtocolExtension e] c = Inr (c\<lparr>protocolPrefix := p @ e\<rparr>) \<and>
   config_apply [ProtocolExtension e, ProtocolExtension e'] c
     = Inr (c\<lparr>protocolPrefix := protocolPrefix c @ e @ e'\<rparr>) \<and>
   (e \<noteq> [] \<longrightarrow>
      config_apply [ProtocolExtension e, ProtocolPrefix p] c
        \<noteq> config_apply [ProtocolPrefix p, ProtocolExtension e] c)"
proof (intro conjI impI)
  show 1: "config_apply [ProtocolExtension e, ProtocolPrefix p] c
      = Inr (c\<lparr>protocolPrefix := p\<rparr>)"
    by (simp add: config_apply_def ProtocolExtension_def ProtocolPrefix_def)
  show 2: "config_apply [ProtocolPrefix p, ProtocolExtension e] c
      = Inr (c\<lparr>protocolPrefix := p @ e\<rparr>)"
    by (simp add: config_apply_def ProtocolExtension_def ProtocolPrefix_def)
  show "config_apply [ProtocolExtension e, ProtocolExtension e'] c
     = Inr (c\<lparr>protocolPrefix := protocolPrefix c @ e @ e'\<rparr>)"
    by (simp add: config_apply_def ProtocolExtension_def)
  assume ne: "e \<noteq> []"
  show "config_apply [ProtocolExtension e, ProtocolPrefix p] c
        \<noteq> config_apply [ProtocolPrefix p, ProtocolExtension e] c"
  proof
    assume "config_apply [ProtocolExtension e, ProtocolPrefix p] c
        = config_apply [ProtocolPrefix p, ProtocolExtension e] c"
    then have "c\<lparr>protocolPrefix := p\<rparr> = c\<lparr>protocolPrefix := p @ e\<rparr>"
      unfolding 1 2 by simp
    then have "protocolPrefix (c\<lparr>protocolPrefix := p\<rparr>)
        = protocolPrefix (c\<lparr>protocolPrefix := p @ e\<rparr>)"
      by (rule arg_cong)
    then show False using ne by simp
  qed
qed

theorem ProtocolPrefix_ProtocolExtension_order_witness:
  "''/lan'' \<noteq> [] \<and>
   config_apply [ProtocolExtension ''/lan'', ProtocolPrefix ''/myapp''] zero_config
     \<noteq> config_apply [ProtocolPrefix ''/myapp'', ProtocolExtension ''/lan''] zero_config \<and>
   config_apply [ProtocolPrefix ''/myapp'', ProtocolExtension ''/lan''] zero_config
     = Inr (zero_config\<lparr>protocolPrefix := ''/myapp/lan''\<rparr>)"
proof -
  have ne: "''/lan'' \<noteq> []" by simp
  note t = ProtocolPrefix_ProtocolExtension_order
      [where e = "''/lan''" and p = "''/myapp''" and c = zero_config and e' = "''/wan''"]
  have 1: "config_apply [ProtocolExtension ''/lan'', ProtocolPrefix ''/myapp''] zero_config
     \<noteq> config_apply [ProtocolPrefix ''/myapp'', ProtocolExtension ''/lan''] zero_config"
    by (rule t [THEN conjunct2, THEN conjunct2, THEN conjunct2, rule_format, OF ne])
  have 2: "config_apply [ProtocolPrefix ''/myapp'', ProtocolExtension ''/lan''] zero_config
     = Inr (zero_config\<lparr>protocolPrefix := ''/myapp/lan''\<rparr>)"
    using t [THEN conjunct2, THEN conjunct1] by simp
  show ?thesis using ne 1 2 by (intro conjI)
qed

section \<open>Properties of the connection notifications\<close>

subsection \<open>The refresh-request channel\<close>

lemma try_send_cap [simp]: "chan_cap (try_send x ch) = chan_cap ch"
  by (simp add: try_send_def)

lemma try_send_bounded:
  "length (chan_buf ch) \<le> chan_cap ch \<Longrightarrow> length (chan_buf (try_send x ch)) \<le> chan_cap ch"
  by (simp add: try_send_def)

lemma try_send_full:
  "chan_cap ch \<le> length (chan_buf ch) \<Longrightarrow> try_send x ch = ch"
  by (simp add: try_send_def)

lemma signal_refresh_chan:
  "triggerRtRefresh (signal_refresh dht) = try_send None (triggerRtRefresh dht)"
  by (simp add: signal_refresh_def)

lemma signal_refresh_pow_chan:
  "triggerRtRefresh ((signal_refresh ^^ N) dht) = (try_send None ^^ N) (triggerRtRefresh dht)"
  by (induction N) (simp_all add: signal_refresh_chan)

lemma try_send_pow_bounded:
  "length (chan_buf ch) \<le> chan_cap ch \<Longrightarrow>
     chan_cap ((try_send x ^^ N) ch) = chan_cap ch \<and>
     length (chan_buf ((try_send x ^^ N) ch)) \<le> chan_cap ch"
proof (induction N)
  case 0
  then show ?case by simp
next
  case (Suc N)
  then have c: "chan_cap ((try_send x ^^ N) ch) = chan_cap ch"
    and l: "length (chan_buf ((try_send x ^^ N) ch)) \<le> chan_cap ((try_send x ^^ N) ch)"
    by simp_all
  from try_send_bounded [OF l] c show ?case by simp
qed

lemma try_send_pow_from_empty:
  "chan_cap ch = 1 \<Longrightarrow> chan_buf ch = [] \<Longrightarrow>
     chan_buf ((try_send x ^^ N) ch) = (if N = 0 then [] else [x]) \<and>
     chan_cap ((try_send x ^^ N) ch) = 1"
  by (induction N) (simp_all add: try_send_def)

subsection \<open>Admitting a peer\<close>

lemma Update_fields [simp]:
  "triggerRtRefresh (Update d p dht) = triggerRtRefresh dht"
  "peerstore (Update d p dht) = peerstore dht"
  "protocolStrs (Update d p dht) = protocolStrs dht"
  "autoRefresh (Update d p dht) = autoRefresh dht"
  "connectedness (Update d p dht) = connectedness dht"
  "strmap (Update d p dht) = strmap dht"
  "spawned (Update d p dht) = spawned dht"
  "protected (Update d p dht) = protected dht"
  "routingTable (Update d p dht) = rt_Update d p (routingTable dht)"
  "calls (Update d p dht) = calls dht @ [RT_Update p]"
  by (simp_all add: Update_def)

lemma admit_connected:
  assumes "connectedness dht p = network_Connected"
  shows "routingTable (admit d p dht) = rt_Update d p (routingTable dht)"
    and "calls (admit d p dht) = calls dht @ RT_Update p #
           (if rt_Size d (routingTable dht) \<le> minRTRefreshThreshold d \<and> autoRefresh dht
            then [Refresh_Attempt] else [])"
    and "triggerRtRefresh (admit d p dht) =
           (if rt_Size d (routingTable dht) \<le> minRTRefreshThreshold d \<and> autoRefresh dht
            then try_send None (triggerRtRefresh dht) else triggerRtRefresh dht)"
    and "spawned (admit d p dht) = spawned dht"
    and "peerstore (admit d p dht) = peerstore dht"
  using assms by (simp_all add: admit_def Let_def signal_refresh_def)

lemma admit_chan_bounded:
  "length (chan_buf (triggerRtRefresh dht)) \<le> chan_cap (triggerRtRefresh dht) \<Longrightarrow>
   chan_cap (triggerRtRefresh (admit d p dht)) = chan_cap (triggerRtRefresh dht) \<and>
   length (chan_buf (triggerRtRefresh (admit d p dht))) \<le> chan_cap (triggerRtRefresh dht)"
  by (simp add: admit_def Let_def signal_refresh_def try_send_bounded)

lemma cached_Update [simp]: "cached (Update d q dht) p = cached dht p"
  by (simp add: cached_def)



lemma Connected_cached:
  assumes "\<not> closing dht"
    and "SupportsProtocols (peerstore dht) (RemotePeer v) (protocolStrs dht) = Inr protos"
    and "protos \<noteq> []"
  shows "Connected d v dht = admit d (RemotePeer v) dht"
  using assms by (simp add: Connected_def Let_def)

text \<open>
  Claim C3. On a \<open>Connected\<close> event for a peer whose protocol support the peerstore
  already records and who is connected when the lifecycle lock is held, the handler
  takes \<open>needsRefresh\<close> from the size of the routing table before the update, calls
  \<open>Update\<close> on the peer, and attempts the refresh signal exactly when
  \<open>needsRefresh\<close> holds and automatic refresh is enabled; it starts no probe. With a
  table of size 19, a threshold of 20, automatic refresh enabled and an empty
  refresh-request channel of capacity 1, \<open>Update\<close> is called and one signal is enqueued.
\<close>

theorem Connected_cached_support:
  assumes "\<not> closing dht"
    and "SupportsProtocols (peerstore dht) (RemotePeer v) (protocolStrs dht) = Inr protos"
    and "protos \<noteq> []"
    and "connectedness dht (RemotePeer v) = network_Connected"
  shows "let needsRefresh = (rt_Size d (routingTable dht) \<le> minRTRefreshThreshold d);
             dht' = Connected d v dht
         in routingTable dht' = rt_Update d (RemotePeer v) (routingTable dht) \<and>
            calls dht' = calls dht @ RT_Update (RemotePeer v) #
              (if needsRefresh \<and> autoRefresh dht then [Refresh_Attempt] else []) \<and>
            triggerRtRefresh dht' =
              (if needsRefresh \<and> autoRefresh dht then try_send None (triggerRtRefresh dht)
               else triggerRtRefresh dht) \<and>
            spawned dht' = spawned dht \<and>
            (rt_Size d (routingTable dht) = 19 \<and> minRTRefreshThreshold d = 20 \<and>
             autoRefresh dht \<and> triggerRtRefresh dht = \<lparr>chan_cap = 1, chan_buf = []\<rparr> \<longrightarrow>
               calls dht' = calls dht @ [RT_Update (RemotePeer v), Refresh_Attempt] \<and>
               triggerRtRefresh dht' = \<lparr>chan_cap = 1, chan_buf = [None]\<rparr>)"
proof -
  have c: "Connected d v dht = admit d (RemotePeer v) dht"
    using assms(1-3) by (rule Connected_cached)
  show ?thesis
    unfolding Let_def c
    by (simp add: admit_connected [OF assms(4)] try_send_def)
qed

theorem Connected_cached_support_witness:
  "calls (Connected (peer_table 20) \<lparr>RemotePeer = 20, NewStream = Inl (Errorf ''unused'')\<rparr>
            (node [1..<20] [20] True 1))
     = [RT_Update 20, Refresh_Attempt] \<and>
   triggerRtRefresh (Connected (peer_table 20)
            \<lparr>RemotePeer = 20, NewStream = Inl (Errorf ''unused'')\<rparr> (node [1..<20] [20] True 1))
     = \<lparr>chan_cap = 1, chan_buf = [None]\<rparr> \<and>
   routingTable (Connected (peer_table 20)
            \<lparr>RemotePeer = 20, NewStream = Inl (Errorf ''unused'')\<rparr> (node [1..<20] [20] True 1))
     = [1..<20] @ [20]"
proof -
  let ?d = "peer_table 20"
  let ?v = "\<lparr>RemotePeer = 20, NewStream = Inl (Errorf ''unused'')\<rparr>"
  let ?n = "node [1..<20] [20] True 1"
  have 1: "\<not> closing ?n" by (simp add: node_def)
  have 2: "SupportsProtocols (peerstore ?n) (RemotePeer ?v) (protocolStrs ?n)
             = Inr [''/ipfs/kad/1.0.0'']"
    by (simp add: node_def SupportsProtocols_def)
  have 3: "[''/ipfs/kad/1.0.0''] \<noteq> []" by simp
  have 4: "connectedness ?n (RemotePeer ?v) = network_Connected" by (simp add: node_def)
  have 5: "rt_Size ?d (routingTable ?n) = 19 \<and> minRTRefreshThreshold ?d = 20 \<and>
      autoRefresh ?n \<and> triggerRtRefresh ?n = \<lparr>chan_cap = 1, chan_buf = []\<rparr>"
    by (simp add: node_def peer_table_def)
  note t = Connected_cached_support [OF 1 2 3 4, of ?d, unfolded Let_def]
  have a: "calls (Connected ?d ?v ?n) = calls ?n @ [RT_Update (RemotePeer ?v), Refresh_Attempt]"
    and b: "triggerRtRefresh (Connected ?d ?v ?n) = \<lparr>chan_cap = 1, chan_buf = [None]\<rparr>"
    using t 5 by blast+
  have c: "routingTable (Connected ?d ?v ?n) = rt_Update ?d (RemotePeer ?v) (routingTable ?n)"
    using t by blast
  have a': "calls (Connected ?d ?v ?n) = [RT_Update 20, Refresh_Attempt]"
    using a by (simp add: node_def)
  have c': "routingTable (Connected ?d ?v ?n) = [1..<20] @ [20]"
    unfolding c by (simp add: node_def peer_table_def)
  show ?thesis using a' b c' by (intro conjI)
qed

text \<open>
  Claim C4. On a \<open>Disconnected\<close> event for a peer that is found connected once the
  lifecycle lock is held, the handler does nothing: the whole state of the node, with the
  routing table, the protection of the connection and the stream map, is left as it was.
\<close>

theorem Disconnected_stale:
  "connectedness dht (RemotePeer v) = network_Connected \<Longrightarrow> Disconnected d v dht = dht"
  by (simp add: Disconnected_def Let_def)

theorem Disconnected_stale_witness:
  "connectedness (node [1, 2] [1, 2] True 1)
      (RemotePeer \<lparr>RemotePeer = 1, NewStream = Inl (Errorf ''unused'')\<rparr>) = network_Connected \<and>
   routingTable (Disconnected (peer_table 20)
      \<lparr>RemotePeer = 1, NewStream = Inl (Errorf ''unused'')\<rparr> (node [1, 2] [1, 2] True 1))
     = [1, 2] \<and>
   calls (Disconnected (peer_table 20)
      \<lparr>RemotePeer = 1, NewStream = Inl (Errorf ''unused'')\<rparr> (node [1, 2] [1, 2] True 1)) = []"
proof -
  let ?v = "\<lparr>RemotePeer = 1, NewStream = Inl (Errorf ''unused'')\<rparr>"
  let ?n = "node [1, 2] [1, 2] True 1"
  have h: "connectedness ?n (RemotePeer ?v) = network_Connected" by (simp add: node_def)
  have e: "Disconnected (peer_table 20) ?v ?n = ?n" using h by (rule Disconnected_stale)
  show ?thesis unfolding e using h by (simp add: node_def)
qed

text \<open>
  Claim C5. On a refresh-request channel of capacity at most one, any number of refresh
  signal attempts with no receiver leaves at most one signal in the buffer; an attempt
  made while a signal is pending changes nothing; and a \<open>Connected\<close> or
  \<open>testConnection\<close> step, which makes the attempt, returns with at most one signal in
  the buffer. The attempt is a function of the state: it cannot block.
\<close>

theorem refresh_signal_coalesces:
  assumes "chan_cap (triggerRtRefresh dht) \<le> 1"
    and "length (chan_buf (triggerRtRefresh dht)) \<le> chan_cap (triggerRtRefresh dht)"
  shows "length (chan_buf (triggerRtRefresh ((signal_refresh ^^ N) dht))) \<le> 1 \<and>
         (chan_buf (triggerRtRefresh dht) \<noteq> [] \<longrightarrow>
            triggerRtRefresh (signal_refresh dht) = triggerRtRefresh dht) \<and>
         length (chan_buf (triggerRtRefresh (Connected d v dht))) \<le> 1 \<and>
         length (chan_buf (triggerRtRefresh (testConnection d v dht))) \<le> 1"
proof (intro conjI impI)
  from try_send_pow_bounded [OF assms(2), where x = None and N = N] assms(1)
  show "length (chan_buf (triggerRtRefresh ((signal_refresh ^^ N) dht))) \<le> 1"
    by (simp add: signal_refresh_pow_chan)
next
  assume "chan_buf (triggerRtRefresh dht) \<noteq> []"
  then have "chan_cap (triggerRtRefresh dht) \<le> length (chan_buf (triggerRtRefresh dht))"
    using assms(1) by (cases "chan_buf (triggerRtRefresh dht)") simp_all
  then show "triggerRtRefresh (signal_refresh dht) = triggerRtRefresh dht"
    by (simp add: signal_refresh_chan try_send_full)
next
  have "length (chan_buf (triggerRtRefresh (Connected d v dht))) \<le> chan_cap (triggerRtRefresh dht)"
    using admit_chan_bounded [OF assms(2)] assms(2)
    by (simp add: Connected_def Let_def split: sum.splits)
  then show "length (chan_buf (triggerRtRefresh (Connected d v dht))) \<le> 1"
    using assms(1) by simp
next
  have "length (chan_buf (triggerRtRefresh (testConnection d v dht))) \<le> chan_cap (triggerRtRefresh dht)"
    using assms(2)
    by (simp add: testConnection_def Let_def admit_def signal_refresh_def try_send_bounded
        split: sum.splits)
  then show "length (chan_buf (triggerRtRefresh (testConnection d v dht))) \<le> 1"
    using assms(1) by simp
qed

theorem refresh_signal_coalesces_witness:
  "chan_buf (triggerRtRefresh ((signal_refresh ^^ 5) (node [] [] True 1))) = [None] \<and>
   length (chan_buf (triggerRtRefresh ((signal_refresh ^^ 5) (node [] [] True 1)))) \<le> 1 \<and>
   chan_buf (triggerRtRefresh (signal_refresh (node [] [] True 1))) = [None] \<and>
   triggerRtRefresh (signal_refresh (signal_refresh (node [] [] True 1)))
     = triggerRtRefresh (signal_refresh (node [] [] True 1))"
proof -
  let ?n = "node [] [] True 1 :: peer_ID list IpfsDHT"
  have n1: "chan_cap (triggerRtRefresh ?n) \<le> 1"
    and n2: "length (chan_buf (triggerRtRefresh ?n)) \<le> chan_cap (triggerRtRefresh ?n)"
    by (simp_all add: node_def)
  have s1: "chan_cap (triggerRtRefresh (signal_refresh ?n)) \<le> 1"
    and s2: "length (chan_buf (triggerRtRefresh (signal_refresh ?n)))
        \<le> chan_cap (triggerRtRefresh (signal_refresh ?n))"
    and s3: "chan_buf (triggerRtRefresh (signal_refresh ?n)) = [None]"
    by (simp_all add: node_def signal_refresh_def try_send_def)
  have s4: "chan_buf (triggerRtRefresh (signal_refresh ?n)) \<noteq> []" using s3 by simp
  have a: "length (chan_buf (triggerRtRefresh ((signal_refresh ^^ 5) ?n))) \<le> 1"
    by (rule refresh_signal_coalesces [OF n1 n2, where N = 5, THEN conjunct1])
  have b: "triggerRtRefresh (signal_refresh (signal_refresh ?n))
      = triggerRtRefresh (signal_refresh ?n)"
    by (rule refresh_signal_coalesces
          [OF s1 s2, where N = 0, THEN conjunct2, THEN conjunct1, rule_format, OF s4])
  have c: "chan_buf (triggerRtRefresh ((signal_refresh ^^ 5) ?n)) = [None]"
    by (simp add: eval_nat_numeral node_def signal_refresh_def try_send_def)
  show ?thesis using a b c s3 by (intro conjI)
qed

text \<open>
  Claim C6. When opening the stream fails, the probe returns with the node unchanged.
  When protocol negotiation fails, the probe only closes the stream: the routing table,
  the peerstore and the refresh-request channel are unchanged and \<open>Update\<close> is not
  called. In both cases the probe returns normally, with no error for its caller.
\<close>

theorem testConnection_failure_swallowed:
  "(\<forall>err. NewStream v = Inl err \<longrightarrow> testConnection d v dht = dht) \<and>
   (\<forall>s err. NewStream v = Inr s \<and> SelectOneOf (protocolStrs dht) s = Inl err \<longrightarrow>
      testConnection d v dht = dht\<lparr>calls := calls dht @ [FullClose (stream_id s)]\<rparr> \<and>
      routingTable (testConnection d v dht) = routingTable dht \<and>
      peerstore (testConnection d v dht) = peerstore dht \<and>
      triggerRtRefresh (testConnection d v dht) = triggerRtRefresh dht \<and>
      RT_Update (RemotePeer v) \<notin> set (drop (length (calls dht)) (calls (testConnection d v dht))))"
  by (simp add: testConnection_def Let_def)

theorem testConnection_failure_swallowed_witness:
  "testConnection (peer_table 20) \<lparr>RemotePeer = 9, NewStream = Inl (Errorf ''connection reset'')\<rparr>
      (node [1, 2] [] True 1) = node [1, 2] [] True 1 \<and>
   routingTable (testConnection (peer_table 20)
      \<lparr>RemotePeer = 9, NewStream = Inr refusing_stream\<rparr> (node [1, 2] [] True 1)) = [1, 2] \<and>
   calls (testConnection (peer_table 20)
      \<lparr>RemotePeer = 9, NewStream = Inr refusing_stream\<rparr> (node [1, 2] [] True 1))
     = [FullClose 4]"
proof -
  let ?d = "peer_table 20"
  let ?n = "node [1, 2] [] True 1"
  let ?v = "\<lparr>RemotePeer = 9, NewStream = Inl (Errorf ''connection reset'')\<rparr>"
  let ?w = "\<lparr>RemotePeer = 9, NewStream = Inr refusing_stream\<rparr>"
  have v: "NewStream ?v = Inl (Errorf ''connection reset'')" by simp
  have w: "NewStream ?w = Inr refusing_stream \<and>
      SelectOneOf (protocolStrs ?n) refusing_stream = Inl (Errorf ''protocol not supported'')"
    by (simp add: SelectOneOf_def refusing_stream_def)
  have 1: "testConnection ?d ?v ?n = ?n"
    by (rule testConnection_failure_swallowed
          [of ?v ?d ?n, THEN conjunct1, rule_format, OF v])
  note t = testConnection_failure_swallowed
          [of ?w ?d ?n, THEN conjunct2, rule_format, OF w]
  have 2: "routingTable (testConnection ?d ?w ?n) = [1, 2]"
    using t [THEN conjunct2, THEN conjunct1] by (simp add: node_def)
  have 3: "calls (testConnection ?d ?w ?n) = [FullClose 4]"
    unfolding t [THEN conjunct1] by (simp add: node_def refusing_stream_def)
  show ?thesis using 1 2 3 by (intro conjI)
qed











end
